theory Spec2Isabelle
  imports Main
begin

section \<open>The status vocabularies\<close>

text \<open>
  \<^verbatim>\<open>archive_upload/lib/jobrunner.py\<close> imports two enumerations that it does not define:
  \<^verbatim>\<open>Status\<close> from the localq scheduler and \<^verbatim>\<open>State\<close> (as \<^verbatim>\<open>arteria_state\<close>) from arteria.

  Modelled from the spec: the raw scheduler status has six named values (completed, failed,
  pending, running, cancelled, not-found). The scheduler is an untyped Python library, so a
  seventh constructor stands for every other value that \<^verbatim>\<open>get_status\<close> could hand back.
\<close>

datatype localq_status =
    Status_COMPLETED
  | Status_FAILED
  | Status_PENDING
  | Status_RUNNING
  | Status_CANCELLED
  | Status_NOT_FOUND
  | Status_OTHER string

text \<open>
  Modelled from the spec: the caller status has the six values done, error, pending, started,
  cancelled and none.
\<close>

datatype arteria_state =
    State_DONE
  | State_ERROR
  | State_PENDING
  | State_STARTED
  | State_CANCELLED
  | State_NONE

text \<open>
  \<^verbatim>\<open>LocalQAdapter.localq2arteria_status\<close>: an \<^verbatim>\<open>if\<close>/\<^verbatim>\<open>elif\<close> chain of equality tests, in the
  order of the source, with the final \<^verbatim>\<open>else\<close> returning \<^verbatim>\<open>arteria_state.NONE\<close>.
\<close>

definition localq2arteria_status :: "localq_status \<Rightarrow> arteria_state" where
  "localq2arteria_status status =
     (if status = Status_COMPLETED then State_DONE
      else if status = Status_FAILED then State_ERROR
      else if status = Status_PENDING then State_PENDING
      else if status = Status_RUNNING then State_STARTED
      else if status = Status_CANCELLED then State_CANCELLED
      else if status = Status_NOT_FOUND then State_NONE
      else State_NONE)"

definition known_statuses :: "localq_status set" where
  "known_statuses =
     {Status_COMPLETED, Status_FAILED, Status_PENDING, Status_RUNNING, Status_CANCELLED,
      Status_NOT_FOUND}"

section \<open>Python values, errors and calls\<close>

text \<open>
  The exceptions that the modelled code can raise. Every function that can raise returns
  \<open>pyerror + 'a\<close>, with \<open>Inl\<close> for the exception.
\<close>

datatype pyerror = TypeError | ValueError | NameError | AttributeError | IOError

text \<open>
  Job ids travel through the adapter untyped. The model keeps the three shapes that matter:
  \<^verbatim>\<open>None\<close>, an integer and a string.
\<close>

datatype pyval = PyNone | PyInt int | PyStr string

definition is_digit :: "char \<Rightarrow> bool" where
  "is_digit c = (c \<in> set ''0123456789'')"

definition is_space :: "char \<Rightarrow> bool" where
  "is_space c = (c \<in> {CHR '' '', CHR 0x09, CHR 0x0A, CHR 0x0B, CHR 0x0C, CHR 0x0D})"

definition strip :: "string \<Rightarrow> string" where
  "strip s = rev (dropWhile is_space (rev (dropWhile is_space s)))"

definition digit_value :: "char \<Rightarrow> int" where
  "digit_value c = int (of_char c) - 48"

definition decimal_value :: "string \<Rightarrow> int" where
  "decimal_value ds = foldl (\<lambda>acc c. 10 * acc + digit_value c) 0 ds"

text \<open>
  The builtin \<^verbatim>\<open>int(x)\<close> of Python 2 on these values: an integer is returned as it is,
  \<^verbatim>\<open>None\<close> raises \<^verbatim>\<open>TypeError\<close>, and a string must be, after stripping white space, an
  optional sign followed by one or more decimal digits, or \<^verbatim>\<open>ValueError\<close> is raised.
\<close>

definition py_int :: "pyval \<Rightarrow> pyerror + int" where
  "py_int v =
     (case v of
        PyNone \<Rightarrow> Inl TypeError
      | PyInt n \<Rightarrow> Inr n
      | PyStr s \<Rightarrow>
          (let t = strip s;
               neg = (t \<noteq> [] \<and> hd t = CHR ''-'');
               ds = (if t \<noteq> [] \<and> (hd t = CHR ''-'' \<or> hd t = CHR ''+'') then tl t else t)
           in if ds \<noteq> [] \<and> list_all is_digit ds
              then Inr (if neg then - decimal_value ds else decimal_value ds)
              else Inl ValueError))"

text \<open>The substring test \<^verbatim>\<open>sub in s\<close> on strings.\<close>

primrec py_in :: "string \<Rightarrow> string \<Rightarrow> bool" where
  "py_in sub [] = (sub = [])"
| "py_in sub (c # cs) = (take (length sub) (c # cs) = sub \<or> py_in sub cs)"

text \<open>
  A call binds the arguments to the declared parameters by position; a call with the wrong
  number of arguments raises \<^verbatim>\<open>TypeError\<close> before the body runs. A method call
  \<^verbatim>\<open>obj.m(args)\<close> passes \<^verbatim>\<open>obj\<close> as the first argument. A name that is not bound in the
  function (and is no global of the module) raises \<^verbatim>\<open>NameError\<close> when it is read.
\<close>

definition call_function ::
  "string list \<Rightarrow> ((string \<times> 'v) list \<Rightarrow> pyerror + 'r) \<Rightarrow> 'v list \<Rightarrow> pyerror + 'r" where
  "call_function params body args =
     (if length args = length params then body (zip params args) else Inl TypeError)"

definition call_method ::
  "string list \<Rightarrow> ((string \<times> 'v) list \<Rightarrow> pyerror + 'r) \<Rightarrow> 'v \<Rightarrow> 'v list \<Rightarrow> pyerror + 'r" where
  "call_method params body obj args = call_function params body (obj # args)"

definition lookup_name :: "(string \<times> 'v) list \<Rightarrow> string \<Rightarrow> pyerror + 'v" where
  "lookup_name env name = (case map_of env name of None \<Rightarrow> Inl NameError | Some v \<Rightarrow> Inr v)"

section \<open>Jobs, the scheduler and the adapter\<close>

text \<open>
  The fields of a localq job that the adapter reads: \<^verbatim>\<open>job.cmd\<close>, \<^verbatim>\<open>job.proc.returncode\<close>
  (\<^verbatim>\<open>None\<close> while the process has not ended) and \<^verbatim>\<open>job.stdout\<close> (a path, or \<^verbatim>\<open>None\<close>).
\<close>

record job =
  cmd :: string
  proc_returncode :: "int option"
  stdout :: "string option"

text \<open>The files that \<^verbatim>\<open>open\<close> can read, each as its list of lines.\<close>

type_synonym filesystem = "string \<rightharpoonup> string list"

definition open_file :: "filesystem \<Rightarrow> string option \<Rightarrow> pyerror + string list" where
  "open_file fs path =
     (case path of
        None \<Rightarrow> Inl TypeError
      | Some p \<Rightarrow> (case fs p of None \<Rightarrow> Inl IOError | Some ls \<Rightarrow> Inr ls))"

text \<open>
  \<^verbatim>\<open>LocalQServer\<close> is an external library. Its six operations that the adapter calls are
  parameters of the model, over a scheduler state \<open>'s\<close>. The three commands return their
  outcome (a value or a raised exception) and the new state; the three queries read the state.
\<close>

record 's localq_server =
  add :: "string \<Rightarrow> int \<Rightarrow> string \<Rightarrow> string option \<Rightarrow> string option \<Rightarrow> 's \<Rightarrow> (pyerror + pyval) \<times> 's"
  stop_job_with_id :: "pyval \<Rightarrow> 's \<Rightarrow> (pyerror + pyval) \<times> 's"
  stop_all_jobs :: "'s \<Rightarrow> (pyerror + pyval) \<times> 's"
  get_job_with_id :: "int \<Rightarrow> 's \<Rightarrow> job option"
  get_status :: "pyval \<Rightarrow> 's \<Rightarrow> localq_status"
  get_status_all :: "'s \<Rightarrow> (pyval \<times> localq_status) list"

text \<open>The attributes that \<^verbatim>\<open>LocalQAdapter.__init__\<close> sets.\<close>

record 's adapter =
  nbr_of_cores :: int
  whitelisted_warnings :: "string list"
  server :: 's

text \<open>\<^verbatim>\<open>start\<close>, \<^verbatim>\<open>stop\<close> and \<^verbatim>\<open>stop_all\<close>: one call of the scheduler each, result returned.\<close>

definition start ::
  "'s localq_server \<Rightarrow> 's adapter \<Rightarrow> string \<Rightarrow> int \<Rightarrow> string \<Rightarrow> string option \<Rightarrow> string option
     \<Rightarrow> (pyerror + pyval) \<times> 's adapter" where
  "start ops self cmd_arg cores run_dir out err =
     (case add ops cmd_arg cores run_dir out err (server self) of
        (r, srv) \<Rightarrow> (r, self\<lparr>server := srv\<rparr>))"

definition stop :: "'s localq_server \<Rightarrow> 's adapter \<Rightarrow> pyval \<Rightarrow> (pyerror + pyval) \<times> 's adapter" where
  "stop ops self job_id =
     (case stop_job_with_id ops job_id (server self) of
        (r, srv) \<Rightarrow> (r, self\<lparr>server := srv\<rparr>))"

definition stop_all :: "'s localq_server \<Rightarrow> 's adapter \<Rightarrow> (pyerror + pyval) \<times> 's adapter" where
  "stop_all ops self =
     (case stop_all_jobs ops (server self) of
        (r, srv) \<Rightarrow> (r, self\<lparr>server := srv\<rparr>))"

section \<open>The exit-code heuristic\<close>

text \<open>
  \<^verbatim>\<open>re.findall(r'ANS[0-9]+W', line)\<close>: the matches from left to right, none overlapping.
  \<open>match_warning\<close> is the match that starts at the head of the string, if there is one:
  the digits are taken greedily, and no shorter run of digits can be followed by \<^verbatim>\<open>W\<close>.
  After a match the search goes on behind it, which \<open>findall_warnings\<close> does by skipping
  the rest of the matched characters.
\<close>

definition match_warning :: "string \<Rightarrow> string option" where
  "match_warning s =
     (if take 3 s = ''ANS'' then
        (let ds = takeWhile is_digit (drop 3 s);
             after = dropWhile is_digit (drop 3 s)
         in if ds \<noteq> [] \<and> take 1 after = ''W'' then Some (''ANS'' @ ds @ ''W'') else None)
      else None)"

fun findall_warnings :: "nat \<Rightarrow> string \<Rightarrow> string list" where
  "findall_warnings skip [] = []"
| "findall_warnings skip (c # cs) =
     (if 0 < skip then findall_warnings (skip - 1) cs
      else (case match_warning (c # cs) of
              None \<Rightarrow> findall_warnings 0 cs
            | Some m \<Rightarrow> m # findall_warnings (length m - 1) cs))"

text \<open>The two attribute paths that the heuristic reads, on the objects that can reach it.\<close>

datatype 's pyobj = ObjAdapter "'s adapter" | ObjJob job

definition attr_proc_returncode :: "'s pyobj \<Rightarrow> pyerror + int option" where
  "attr_proc_returncode obj =
     (case obj of ObjJob j \<Rightarrow> Inr (proc_returncode j) | ObjAdapter a \<Rightarrow> Inl AttributeError)"

definition attr_stdout :: "'s pyobj \<Rightarrow> pyerror + string option" where
  "attr_stdout obj =
     (case obj of ObjJob j \<Rightarrow> Inr (stdout j) | ObjAdapter a \<Rightarrow> Inl AttributeError)"

definition attr_whitelisted_warnings :: "'s pyobj \<Rightarrow> pyerror + string list" where
  "attr_whitelisted_warnings obj =
     (case obj of ObjAdapter a \<Rightarrow> Inr (whitelisted_warnings a) | ObjJob j \<Rightarrow> Inl AttributeError)"

text \<open>
  \<^verbatim>\<open>LocalQAdapter._parse_dsmc_return_code\<close> is declared as
  \<^verbatim>\<open>def _parse_dsmc_return_code(job):\<close>, with the one parameter \<^verbatim>\<open>job\<close>. Its body reads the
  name \<^verbatim>\<open>self\<close> in the loop over the warnings, in \<^verbatim>\<open>self.whitelisted_warnings\<close>.
\<close>

definition parse_dsmc_return_code_params :: "string list" where
  "parse_dsmc_return_code_params = [''job'']"

text \<open>The loop \<^verbatim>\<open>for warning in warnings\<close>, which returns at the first warning off the list.\<close>

fun check_warnings :: "(string \<times> 's pyobj) list \<Rightarrow> string list \<Rightarrow> pyerror + arteria_state" where
  "check_warnings env [] = Inr State_DONE"
| "check_warnings env (warning # rest) =
     (case lookup_name env ''self'' of
        Inl e \<Rightarrow> Inl e
      | Inr slf \<Rightarrow>
          (case attr_whitelisted_warnings slf of
             Inl e \<Rightarrow> Inl e
           | Inr whitelist \<Rightarrow>
               if warning \<notin> set whitelist then Inr State_ERROR else check_warnings env rest))"

text \<open>The body of \<^verbatim>\<open>_parse_dsmc_return_code\<close>, run with its names bound as \<open>env\<close> says.\<close>

definition parse_dsmc_return_code ::
  "filesystem \<Rightarrow> (string \<times> 's pyobj) list \<Rightarrow> pyerror + arteria_state" where
  "parse_dsmc_return_code fs env =
     (case lookup_name env ''job'' of
        Inl e \<Rightarrow> Inl e
      | Inr j \<Rightarrow>
          (case attr_proc_returncode j of
             Inl e \<Rightarrow> Inl e
           | Inr rc \<Rightarrow>
               if rc = Some 8 then
                 (case attr_stdout j of
                    Inl e \<Rightarrow> Inl e
                  | Inr path \<Rightarrow>
                      (case open_file fs path of
                         Inl e \<Rightarrow> Inl e
                       | Inr dsmc_log \<Rightarrow>
                           check_warnings env (concat (map (findall_warnings 0) dsmc_log))))
               else Inr State_ERROR))"

section \<open>Status queries\<close>

text \<open>
  \<^verbatim>\<open>LocalQAdapter.status\<close>. The job is fetched with \<^verbatim>\<open>int(job_id)\<close>, the raw status with
  \<^verbatim>\<open>job_id\<close> itself. \<^verbatim>\<open>job.cmd\<close> is read only when the mapped status is error (the
  \<^verbatim>\<open>and\<close> of Python evaluates from the left), and raises \<^verbatim>\<open>AttributeError\<close> when the
  scheduler returned no job. The heuristic is called as \<^verbatim>\<open>self._parse_dsmc_return_code(job)\<close>.
\<close>

definition status ::
  "'s localq_server \<Rightarrow> filesystem \<Rightarrow> 's adapter \<Rightarrow> pyval \<Rightarrow> pyerror + arteria_state" where
  "status ops fs self job_id =
     (case py_int job_id of
        Inl e \<Rightarrow> Inl e
      | Inr n \<Rightarrow>
          (let job = get_job_with_id ops n (server self);
               arteria_status = localq2arteria_status (get_status ops job_id (server self))
           in if arteria_status = State_ERROR then
                (case job of
                   None \<Rightarrow> Inl AttributeError
                 | Some j \<Rightarrow>
                     if py_in ''dsmc'' (cmd j) \<and> \<not> py_in ''md5sum'' (cmd j)
                     then call_method parse_dsmc_return_code_params (parse_dsmc_return_code fs)
                            (ObjAdapter self) [ObjJob j]
                     else Inr arteria_status)
              else Inr arteria_status))"

text \<open>
  \<^verbatim>\<open>LocalQAdapter.status_all\<close>: the loop over \<^verbatim>\<open>get_status_all().iteritems()\<close> (Python 2),
  storing the mapped status under each key of a new dictionary.
\<close>

definition status_all :: "'s localq_server \<Rightarrow> 's adapter \<Rightarrow> (pyval \<rightharpoonup> arteria_state)" where
  "status_all ops self =
     foldl (\<lambda>jobs_and_status (k, v). jobs_and_status(k \<mapsto> localq2arteria_status v))
       Map.empty (get_status_all ops (server self))"

section \<open>Launching\<close>

text \<open>
  Modelled from the spec: \<^verbatim>\<open>LocalQServer.add\<close>, which is part of the external localq library
  and not of this repository. The spec says of a launch only that it yields a job id, and that
  a failure to launch is reported as none and not as an exception. What makes a launch fail is
  the scheduler's business and stays a parameter: \<open>launch\<close> returns \<open>None\<close> when the launch
  fails, and the new job's integer id with the new scheduler state when it succeeds.
\<close>

definition spec_add ::
  "(string \<Rightarrow> int \<Rightarrow> string \<Rightarrow> string option \<Rightarrow> string option \<Rightarrow> 's \<Rightarrow> (int \<times> 's) option)
     \<Rightarrow> string \<Rightarrow> int \<Rightarrow> string \<Rightarrow> string option \<Rightarrow> string option \<Rightarrow> 's \<Rightarrow> (pyerror + pyval) \<times> 's" where
  "spec_add launch cmd_arg cores run_dir out err srv =
     (case launch cmd_arg cores run_dir out err srv of
        None \<Rightarrow> (Inr PyNone, srv)
      | Some (job_id, srv') \<Rightarrow> (Inr (PyInt job_id), srv'))"

section \<open>A concrete scheduler for the examples\<close>

text \<open>
  The examples below run the adapter against a small scheduler: its state is the list of its
  jobs, each with an integer id and a raw status. A launch fails when the job asks for more
  than four cores. Ids are compared by equality, so a string names no job.
\<close>

type_synonym sample_state = "(int \<times> job \<times> localq_status) list"

definition sample_launch ::
  "string \<Rightarrow> int \<Rightarrow> string \<Rightarrow> string option \<Rightarrow> string option \<Rightarrow> sample_state
     \<Rightarrow> (int \<times> sample_state) option" where
  "sample_launch cmd_arg cores run_dir out err srv =
     (if 4 < cores then None
      else Some (int (length srv) + 1,
                 srv @ [(int (length srv) + 1,
                         \<lparr>cmd = cmd_arg, proc_returncode = None, stdout = out\<rparr>,
                         Status_PENDING)]))"

definition sample_status :: "pyval \<Rightarrow> sample_state \<Rightarrow> localq_status" where
  "sample_status job_id srv =
     (case job_id of
        PyInt n \<Rightarrow> (case map_of srv n of None \<Rightarrow> Status_NOT_FOUND | Some (j, st) \<Rightarrow> st)
      | PyStr s \<Rightarrow> Status_NOT_FOUND
      | PyNone \<Rightarrow> Status_NOT_FOUND)"

definition sample_stop :: "pyval \<Rightarrow> sample_state \<Rightarrow> (pyerror + pyval) \<times> sample_state" where
  "sample_stop job_id srv =
     (if sample_status job_id srv = Status_NOT_FOUND then (Inr PyNone, srv)
      else (Inr job_id,
            map (\<lambda>(n, j, st). if PyInt n = job_id then (n, j, Status_CANCELLED) else (n, j, st)) srv))"

definition sample_server :: "sample_state localq_server" where
  "sample_server =
     \<lparr>add = spec_add sample_launch,
      stop_job_with_id = sample_stop,
      stop_all_jobs = (\<lambda>srv. (Inr PyNone, map (\<lambda>(n, j, st). (n, j, Status_CANCELLED)) srv)),
      get_job_with_id = (\<lambda>n srv. map_option fst (map_of srv n)),
      get_status = sample_status,
      get_status_all = (\<lambda>srv. map (\<lambda>(n, j, st). (PyInt n, st)) srv)\<rparr>"

definition sample_adapter :: "sample_state \<Rightarrow> sample_state adapter" where
  "sample_adapter srv =
     \<lparr>nbr_of_cores = 4, whitelisted_warnings = [''ANS1809W'', ''ANS2042W''], server = srv\<rparr>"

definition sample_fs :: filesystem where
  "sample_fs =
     [''/logs/clean.out'' \<mapsto> [''Total number of objects archived: 12''],
      ''/logs/listed.out'' \<mapsto>
        [''ANS1809W A session with the TSM server has been disconnected.'',
         ''retry ANS2042W ANS1809W done''],
      ''/logs/unlisted.out'' \<mapsto>
        [''ANS1809W A session with the TSM server has been disconnected.'',
         ''ANS1228E Sending of object failed ANS4005W x'']]"

definition dsmc_job :: "int option \<Rightarrow> string \<Rightarrow> job" where
  "dsmc_job rc path =
     \<lparr>cmd = ''dsmc archive /data/runfolder/ -subdir=yes'', proc_returncode = rc,
      stdout = Some path\<rparr>"

definition md5sum_job :: "int option \<Rightarrow> string \<Rightarrow> job" where
  "md5sum_job rc path =
     \<lparr>cmd = ''md5sum /data/dsmc/archive.tar.gz'', proc_returncode = rc, stdout = Some path\<rparr>"

section \<open>The status mapping\<close>

text \<open>
  Claim C1. For each of the six raw scheduler statuses \<^verbatim>\<open>localq2arteria_status\<close> returns the
  documented value (COMPLETED to done, FAILED to error, PENDING to pending, RUNNING to started,
  CANCELLED to cancelled, NOT_FOUND to none), and for every value outside these six it returns
  none.
\<close>

theorem localq2arteria_status_table:
  "localq2arteria_status Status_COMPLETED = State_DONE \<and>
   localq2arteria_status Status_FAILED = State_ERROR \<and>
   localq2arteria_status Status_PENDING = State_PENDING \<and>
   localq2arteria_status Status_RUNNING = State_STARTED \<and>
   localq2arteria_status Status_CANCELLED = State_CANCELLED \<and>
   localq2arteria_status Status_NOT_FOUND = State_NONE \<and>
   (\<forall>st. st \<notin> known_statuses \<longrightarrow> localq2arteria_status st = State_NONE)"
  by (simp add: localq2arteria_status_def known_statuses_def)

theorem localq2arteria_status_table_witness:
  "Status_OTHER ''PAUSED'' \<notin> known_statuses \<and>
   localq2arteria_status (Status_OTHER ''PAUSED'') = State_NONE"
proof -
  have out: "Status_OTHER ''PAUSED'' \<notin> known_statuses"
    by (simp add: known_statuses_def)
  from localq2arteria_status_table
  have "Status_OTHER ''PAUSED'' \<notin> known_statuses \<longrightarrow>
        localq2arteria_status (Status_OTHER ''PAUSED'') = State_NONE"
    by blast
  with out show ?thesis by simp
qed

section \<open>Calling the heuristic\<close>

lemmas sample_defs =
  sample_server_def sample_adapter_def sample_status_def sample_fs_def dsmc_job_def
  md5sum_job_def sample_launch_def sample_stop_def spec_add_def

text \<open>
  A method call with one argument hands two values to \<^verbatim>\<open>_parse_dsmc_return_code\<close>, which
  declares one parameter: the call raises \<^verbatim>\<open>TypeError\<close> whatever the body is.
\<close>

lemma heuristic_call_arity:
  "call_method parse_dsmc_return_code_params body obj [x] = Inl TypeError"
  by (simp add: call_method_def call_function_def parse_dsmc_return_code_params_def)

text \<open>On a job that triggers the heuristic, \<^verbatim>\<open>status\<close> is that call and nothing else.\<close>

lemma status_triggered:
  assumes "py_int job_id = Inr n"
    and "get_job_with_id ops n (server self) = Some j"
    and "localq2arteria_status (get_status ops job_id (server self)) = State_ERROR"
    and "py_in ''dsmc'' (cmd j)"
    and "\<not> py_in ''md5sum'' (cmd j)"
  shows "status ops fs self job_id =
         call_method parse_dsmc_return_code_params (parse_dsmc_return_code fs)
           (ObjAdapter self) [ObjJob j]"
  using assms by (simp add: status_def)

lemma status_triggered_raises:
  assumes "py_int job_id = Inr n"
    and "get_job_with_id ops n (server self) = Some j"
    and "localq2arteria_status (get_status ops job_id (server self)) = State_ERROR"
    and "py_in ''dsmc'' (cmd j)"
    and "\<not> py_in ''md5sum'' (cmd j)"
  shows "status ops fs self job_id = Inl TypeError"
  using status_triggered [OF assms] by (simp add: heuristic_call_arity)

text \<open>
  With both names bound, as a declaration \<^verbatim>\<open>(self, job)\<close> would bind them, the same body
  computes what its comments announce: done when every warning of the log is on the list,
  error when one is not or when the return code is not 8.
\<close>

lemma check_warnings_bound:
  "check_warnings [(''self'', ObjAdapter a), (''job'', ObjJob j)] ws =
   Inr (if set ws \<subseteq> set (whitelisted_warnings a) then State_DONE else State_ERROR)"
  by (induction ws) (simp_all add: lookup_name_def attr_whitelisted_warnings_def)

lemma body_with_both_names:
  "parse_dsmc_return_code fs [(''self'', ObjAdapter a), (''job'', ObjJob j)] =
   (if proc_returncode j = Some 8 then
      (case open_file fs (stdout j) of
         Inl e \<Rightarrow> Inl e
       | Inr dsmc_log \<Rightarrow>
           Inr (if set (concat (map (findall_warnings 0) dsmc_log)) \<subseteq> set (whitelisted_warnings a)
                then State_DONE else State_ERROR))
    else Inr State_ERROR)"
  by (simp add: parse_dsmc_return_code_def lookup_name_def attr_proc_returncode_def
      attr_stdout_def check_warnings_bound split: sum.splits)

section \<open>The heuristic under \<^verbatim>\<open>status\<close>\<close>

text \<open>
  Claim C2 says that the heuristic, once \<^verbatim>\<open>status\<close> triggers it (mapped status error,
  \<^verbatim>\<open>dsmc\<close> and not \<^verbatim>\<open>md5sum\<close> in the command), never raises, and that \<^verbatim>\<open>status\<close> returns
  error in the worst case. For a failed \<^verbatim>\<open>dsmc\<close> job with return code 8 and a log without
  warnings, \<^verbatim>\<open>status\<close> raises \<^verbatim>\<open>TypeError\<close> and returns nothing.
\<close>

theorem status_heuristic_raises_example:
  "status sample_server sample_fs
     (sample_adapter [(5, dsmc_job (Some 8) ''/logs/clean.out'', Status_FAILED)]) (PyInt 5) =
   Inl TypeError"
  by (simp add: status_def py_int_def sample_defs localq2arteria_status_def heuristic_call_arity)

text \<open>
  Claim C3 says that \<^verbatim>\<open>status\<close> returns done for a failed \<^verbatim>\<open>dsmc\<close> job with return code 8
  whose log holds only listed warnings. The log here holds \<^verbatim>\<open>ANS1809W\<close> and \<^verbatim>\<open>ANS2042W\<close>,
  both on the list; \<^verbatim>\<open>status\<close> raises \<^verbatim>\<open>TypeError\<close>.
\<close>

theorem status_listed_warnings_example:
  "status sample_server sample_fs
     (sample_adapter [(1, dsmc_job (Some 8) ''/logs/listed.out'', Status_FAILED)]) (PyInt 1) =
   Inl TypeError"
  by (simp add: status_def py_int_def sample_defs localq2arteria_status_def heuristic_call_arity)

text \<open>
  Claim C4 says that \<^verbatim>\<open>status\<close> returns error for such a job when a warning of its log is not
  on the list. The log here holds \<^verbatim>\<open>ANS4005W\<close>, which is not; \<^verbatim>\<open>status\<close> raises
  \<^verbatim>\<open>TypeError\<close> and returns nothing.
\<close>

theorem status_unlisted_warning_example:
  "status sample_server sample_fs
     (sample_adapter [(2, dsmc_job (Some 8) ''/logs/unlisted.out'', Status_FAILED)]) (PyInt 2) =
   Inl TypeError"
  by (simp add: status_def py_int_def sample_defs localq2arteria_status_def heuristic_call_arity)

text \<open>
  Claim C5 says that \<^verbatim>\<open>status\<close> returns error for a failed \<^verbatim>\<open>dsmc\<close> job whose return code is
  not 8. The return code here is 12; \<^verbatim>\<open>status\<close> raises \<^verbatim>\<open>TypeError\<close> and returns nothing.
\<close>

theorem status_other_return_code_example:
  "status sample_server sample_fs
     (sample_adapter [(3, dsmc_job (Some 12) ''/logs/clean.out'', Status_FAILED)]) (PyInt 3) =
   Inl TypeError"
  by (simp add: status_def py_int_def sample_defs localq2arteria_status_def heuristic_call_arity)

section \<open>Jobs that skip the heuristic\<close>

text \<open>
  Claim C6. For every job whose command contains \<^verbatim>\<open>md5sum\<close>, \<^verbatim>\<open>status(job_id)\<close> skips the
  heuristic and returns the directly mapped status, whatever the other trigger conditions
  are. The job is the one the scheduler returns for \<^verbatim>\<open>int(job_id)\<close>.
\<close>

theorem status_md5sum_skips_heuristic:
  assumes "py_int job_id = Inr n"
    and "get_job_with_id ops n (server self) = Some j"
    and "py_in ''md5sum'' (cmd j)"
  shows "status ops fs self job_id =
         Inr (localq2arteria_status (get_status ops job_id (server self)))"
  using assms by (simp add: status_def Let_def)

text \<open>
  C6 at a failed job with return code 8 and listed warnings only, whose command contains both
  \<^verbatim>\<open>md5sum\<close> and \<^verbatim>\<open>dsmc\<close>.
\<close>

theorem status_md5sum_skips_heuristic_witness:
  "py_int (PyInt 1) = Inr 1 \<and>
   py_in ''dsmc'' (cmd (md5sum_job (Some 8) ''/logs/listed.out'')) \<and>
   py_in ''md5sum'' (cmd (md5sum_job (Some 8) ''/logs/listed.out'')) \<and>
   status sample_server sample_fs
     (sample_adapter [(1, md5sum_job (Some 8) ''/logs/listed.out'', Status_FAILED)]) (PyInt 1) =
   Inr State_ERROR"
proof -
  let ?j = "md5sum_job (Some 8) ''/logs/listed.out''"
  let ?a = "sample_adapter [(1, ?j, Status_FAILED)]"
  have h1: "py_int (PyInt 1) = Inr 1"
    by (simp add: py_int_def)
  have h2: "get_job_with_id sample_server 1 (server ?a) = Some ?j"
    by (simp add: sample_server_def sample_adapter_def)
  have h3: "py_in ''md5sum'' (cmd ?j)"
    by (simp add: md5sum_job_def)
  have h4: "py_in ''dsmc'' (cmd ?j)"
    by (simp add: md5sum_job_def)
  have st: "localq2arteria_status (get_status sample_server (PyInt 1) (server ?a)) = State_ERROR"
    by (simp add: sample_server_def sample_adapter_def sample_status_def localq2arteria_status_def)
  from status_md5sum_skips_heuristic [OF h1 h2 h3, of sample_fs] h1 h3 h4 st
  show ?thesis by simp
qed

section \<open>The status of every job\<close>

text \<open>The loop of \<^verbatim>\<open>status_all\<close> leaves, under each key, the mapped value of its last item.\<close>

lemma foldl_status_update:
  "foldl (\<lambda>m (k, v). m(k \<mapsto> f v)) m0 xs k =
   (case map_of (rev xs) k of None \<Rightarrow> m0 k | Some v \<Rightarrow> Some (f v))"
  by (induction xs rule: rev_induct) (auto split: option.splits)

lemma status_all_lookup:
  "status_all ops self k =
   map_option localq2arteria_status (map_of (rev (get_status_all ops (server self))) k)"
  by (simp add: status_all_def foldl_status_update split: option.splits)

lemma map_of_rev_distinct:
  "distinct (map fst xs) \<Longrightarrow> map_of (rev xs) = map_of xs"
  by (rule map_of_inject_set [THEN iffD2]) (simp_all add: distinct_rev rev_map [symmetric])

text \<open>
  The items of a dictionary have distinct keys. Then \<^verbatim>\<open>status_all()\<close> holds, for every job id,
  the raw status of the scheduler mapped through \<^verbatim>\<open>localq2arteria_status\<close>, and nothing for
  an id that the scheduler does not list: the heuristic has no part in it, and every job
  reported as failed is reported as error.
\<close>

lemma status_all_maps_directly:
  assumes "distinct (map fst (get_status_all ops (server self)))"
  shows "status_all ops self k =
           map_option localq2arteria_status (map_of (get_status_all ops (server self)) k) \<and>
         ((k, Status_FAILED) \<in> set (get_status_all ops (server self)) \<longrightarrow>
            status_all ops self k = Some State_ERROR)"
  using assms
  by (simp add: status_all_lookup map_of_rev_distinct localq2arteria_status_def)

text \<open>
  Claim C7 says that \<^verbatim>\<open>status_all()\<close> never applies the heuristic, so that a \<^verbatim>\<open>dsmc\<close> job
  with return code 8 and listed warnings only is reported as error by \<^verbatim>\<open>status_all\<close> while
  \<^verbatim>\<open>status\<close> reports done for the same job. For such a job \<^verbatim>\<open>status_all\<close> does report
  error; \<^verbatim>\<open>status\<close> does not report done: it raises \<^verbatim>\<open>TypeError\<close>.
\<close>

theorem status_all_disagrees_example:
  "status_all sample_server
     (sample_adapter [(4, dsmc_job (Some 8) ''/logs/listed.out'', Status_FAILED)]) (PyInt 4) =
   Some State_ERROR \<and>
   status sample_server sample_fs
     (sample_adapter [(4, dsmc_job (Some 8) ''/logs/listed.out'', Status_FAILED)]) (PyInt 4) =
   Inl TypeError"
  by (simp add: status_all_def status_def py_int_def sample_defs localq2arteria_status_def
      heuristic_call_arity)

section \<open>Forwarding\<close>

text \<open>
  Claim C8. \<^verbatim>\<open>start\<close>, \<^verbatim>\<open>stop\<close> and \<^verbatim>\<open>stop_all\<close> are pure forwards: each returns exactly
  what \<^verbatim>\<open>server.add\<close>, \<^verbatim>\<open>server.stop_job_with_id\<close> and \<^verbatim>\<open>server.stop_all_jobs\<close> return on
  the same arguments, and the adapter afterwards is the adapter before, with the scheduler
  in the state that the scheduler's own operation left.
\<close>

theorem start_stop_forward:
  "fst (start ops self cmd_arg cores run_dir out err) =
     fst (add ops cmd_arg cores run_dir out err (server self)) \<and>
   snd (start ops self cmd_arg cores run_dir out err) =
     self\<lparr>server := snd (add ops cmd_arg cores run_dir out err (server self))\<rparr> \<and>
   fst (stop ops self job_id) = fst (stop_job_with_id ops job_id (server self)) \<and>
   snd (stop ops self job_id) = self\<lparr>server := snd (stop_job_with_id ops job_id (server self))\<rparr> \<and>
   fst (stop_all ops self) = fst (stop_all_jobs ops (server self)) \<and>
   snd (stop_all ops self) = self\<lparr>server := snd (stop_all_jobs ops (server self))\<rparr>"
  by (simp add: start_def stop_def stop_all_def split: prod.splits)

text \<open>
  Claim C9. When the launch fails, \<^verbatim>\<open>start\<close> returns \<^verbatim>\<open>None\<close> and raises nothing, and that
  result differs from the result of every launch that succeeds, which is the job's id. The
  scheduler's \<^verbatim>\<open>add\<close> is the one modelled from the spec.
\<close>

theorem start_failed_launch_returns_none:
  assumes "launch cmd_arg cores run_dir out err (server self) = None"
  shows "fst (start (ops\<lparr>add := spec_add launch\<rparr>) self cmd_arg cores run_dir out err) = Inr PyNone \<and>
         (\<forall>c n d ou er a job_id srv.
            launch c n d ou er (server a) = Some (job_id, srv) \<longrightarrow>
            fst (start (ops\<lparr>add := spec_add launch\<rparr>) a c n d ou er) = Inr (PyInt job_id) \<and>
            fst (start (ops\<lparr>add := spec_add launch\<rparr>) a c n d ou er) \<noteq>
            fst (start (ops\<lparr>add := spec_add launch\<rparr>) self cmd_arg cores run_dir out err))"
  using assms by (simp add: start_def spec_add_def)

text \<open>C9 at a request for eight cores, which fails, beside one for two cores, which starts.\<close>

theorem start_failed_launch_returns_none_witness:
  "sample_launch ''dsmc archive /data'' 8 ''/tmp'' None None (server (sample_adapter [])) = None \<and>
   fst (start sample_server (sample_adapter []) ''dsmc archive /data'' 8 ''/tmp'' None None) =
     Inr PyNone \<and>
   fst (start sample_server (sample_adapter []) ''dsmc archive /data'' 2 ''/tmp'' None None) =
     Inr (PyInt 1)"
proof -
  have ops: "sample_server\<lparr>add := spec_add sample_launch\<rparr> = sample_server"
    by (simp add: sample_server_def)
  have h: "sample_launch ''dsmc archive /data'' 8 ''/tmp'' None None (server (sample_adapter [])) = None"
    by (simp add: sample_launch_def)
  have ok: "sample_launch ''dsmc archive /data'' 2 ''/tmp'' None None (server (sample_adapter [])) =
      Some (1, [(1, \<lparr>cmd = ''dsmc archive /data'', proc_returncode = None, stdout = None\<rparr>,
                 Status_PENDING)])"
    by (simp add: sample_launch_def sample_adapter_def)
  from start_failed_launch_returns_none
    [of sample_launch "''dsmc archive /data''" 8 "''/tmp''" None None "sample_adapter []"
       sample_server, OF h] ok h
  show ?thesis unfolding ops by blast
qed

section \<open>Job ids\<close>

text \<open>
  Claim C10. \<^verbatim>\<open>status(job_id)\<close> needs a job id that \<^verbatim>\<open>int\<close> accepts: when \<^verbatim>\<open>int(job_id)\<close>
  raises, \<^verbatim>\<open>status\<close> raises the same exception and returns no status. When it yields \<open>n\<close>,
  the raw status is the one the scheduler gives for the unconverted \<^verbatim>\<open>job_id\<close>, and the job
  is the one it gives for \<open>n\<close>: a mapped status other than error is returned as it is; on
  error, \<^verbatim>\<open>status\<close> raises \<^verbatim>\<open>AttributeError\<close> when there is no job under \<open>n\<close>, raises
  \<^verbatim>\<open>TypeError\<close> when the command of the job under \<open>n\<close> contains \<^verbatim>\<open>dsmc\<close> and not
  \<^verbatim>\<open>md5sum\<close>, and returns error otherwise. \<^verbatim>\<open>stop\<close> converts nothing and hands \<^verbatim>\<open>job_id\<close>
  to the scheduler as it is; \<^verbatim>\<open>status_all\<close> takes no job id.
\<close>

theorem status_converts_job_id:
  "(py_int job_id = Inl e \<longrightarrow> status ops fs self job_id = Inl e) \<and>
   (py_int job_id = Inr n \<longrightarrow>
      status ops fs self job_id =
        (if localq2arteria_status (get_status ops job_id (server self)) = State_ERROR then
           (case get_job_with_id ops n (server self) of
              None \<Rightarrow> Inl AttributeError
            | Some j \<Rightarrow>
                if py_in ''dsmc'' (cmd j) \<and> \<not> py_in ''md5sum'' (cmd j) then Inl TypeError
                else Inr State_ERROR)
         else Inr (localq2arteria_status (get_status ops job_id (server self))))) \<and>
   fst (stop ops self job_id) = fst (stop_job_with_id ops job_id (server self))"
  by (simp add: status_def stop_def heuristic_call_arity split: prod.splits option.splits)

text \<open>
  C10 at the id \<^verbatim>\<open>"job-7"\<close>, where \<^verbatim>\<open>status\<close> raises \<^verbatim>\<open>ValueError\<close> and \<^verbatim>\<open>stop\<close> returns;
  at the id \<^verbatim>\<open>"7"\<close> on the sample scheduler, which knows no status under a string; at the id
  \<^verbatim>\<open>"7"\<close> on a scheduler that reports a failure under the string \<^verbatim>\<open>"7"\<close> alone, where the
  answer turns on the job stored under the integer 7; and at the integer 7.
\<close>

theorem status_converts_job_id_witness:
  "py_int (PyStr ''job-7'') = Inl ValueError \<and>
   status sample_server sample_fs
     (sample_adapter [(7, md5sum_job (Some 1) ''/logs/clean.out'', Status_FAILED)])
     (PyStr ''job-7'') = Inl ValueError \<and>
   fst (stop sample_server
     (sample_adapter [(7, md5sum_job (Some 1) ''/logs/clean.out'', Status_FAILED)])
     (PyStr ''job-7'')) = Inr PyNone \<and>
   py_int (PyStr ''7'') = Inr 7 \<and>
   status sample_server sample_fs
     (sample_adapter [(7, md5sum_job (Some 1) ''/logs/clean.out'', Status_FAILED)])
     (PyStr ''7'') = Inr State_NONE \<and>
   status (sample_server\<lparr>get_status := \<lambda>job_id srv.
              if job_id = PyStr ''7'' then Status_FAILED else Status_NOT_FOUND\<rparr>) sample_fs
     (sample_adapter [(7, md5sum_job (Some 1) ''/logs/clean.out'', Status_FAILED)])
     (PyStr ''7'') = Inr State_ERROR \<and>
   status (sample_server\<lparr>get_status := \<lambda>job_id srv.
              if job_id = PyStr ''7'' then Status_FAILED else Status_NOT_FOUND\<rparr>) sample_fs
     (sample_adapter [(8, md5sum_job (Some 1) ''/logs/clean.out'', Status_FAILED)])
     (PyStr ''7'') = Inl AttributeError \<and>
   py_int (PyInt 7) = Inr 7 \<and>
   status sample_server sample_fs
     (sample_adapter [(7, md5sum_job (Some 0) ''/logs/clean.out'', Status_COMPLETED)])
     (PyInt 7) = Inr State_DONE"
proof -
  let ?a = "sample_adapter [(7, md5sum_job (Some 1) ''/logs/clean.out'', Status_FAILED)]"
  let ?b = "sample_adapter [(8, md5sum_job (Some 1) ''/logs/clean.out'', Status_FAILED)]"
  let ?c = "sample_adapter [(7, md5sum_job (Some 0) ''/logs/clean.out'', Status_COMPLETED)]"
  let ?ops = "sample_server\<lparr>get_status := \<lambda>job_id srv.
              if job_id = PyStr ''7'' then Status_FAILED else Status_NOT_FOUND\<rparr>"
  have h: "py_int (PyStr ''job-7'') = Inl ValueError"
    by (simp add: py_int_def strip_def is_space_def is_digit_def)
  have c: "py_int (PyStr ''7'') = Inr 7"
    by (simp add: py_int_def strip_def is_space_def is_digit_def decimal_value_def digit_value_def)
  have i: "py_int (PyInt 7) = Inr 7"
    by (simp add: py_int_def)
  have s: "fst (stop_job_with_id sample_server (PyStr ''job-7'') (server ?a)) = Inr PyNone"
    by (simp add: sample_server_def sample_stop_def sample_status_def)
  from status_converts_job_id [of "PyStr ''job-7''" ValueError sample_server sample_fs ?a] h s
  have p1: "status sample_server sample_fs ?a (PyStr ''job-7'') = Inl ValueError \<and>
            fst (stop sample_server ?a (PyStr ''job-7'')) = Inr PyNone"
    by simp
  from status_converts_job_id
    [where job_id = "PyStr ''7''" and n = 7 and ops = sample_server and fs = sample_fs
       and self = ?a] c
  have p2: "status sample_server sample_fs ?a (PyStr ''7'') = Inr State_NONE"
    by (simp add: sample_server_def sample_status_def localq2arteria_status_def)
  from status_converts_job_id
    [where job_id = "PyStr ''7''" and n = 7 and ops = ?ops and fs = sample_fs and self = ?a] c
  have p3: "status ?ops sample_fs ?a (PyStr ''7'') = Inr State_ERROR"
    by (simp add: sample_server_def sample_adapter_def md5sum_job_def localq2arteria_status_def)
  from status_converts_job_id
    [where job_id = "PyStr ''7''" and n = 7 and ops = ?ops and fs = sample_fs and self = ?b] c
  have p4: "status ?ops sample_fs ?b (PyStr ''7'') = Inl AttributeError"
    by (simp add: sample_server_def sample_adapter_def localq2arteria_status_def)
  from status_converts_job_id
    [where job_id = "PyInt 7" and n = 7 and ops = sample_server and fs = sample_fs
       and self = ?c] i
  have p5: "status sample_server sample_fs ?c (PyInt 7) = Inr State_DONE"
    by (simp add: sample_server_def sample_adapter_def sample_status_def localq2arteria_status_def)
  from h c i p1 p2 p3 p4 p5 show ?thesis by simp
qed

end
